theory Spec2Isabelle
  imports Complex_Main "HOL-Library.Log_Nat"
begin

section \<open>Python values used by titanic.py\<close>

text \<open>
  Exceptions are values. \<open>Exception msg\<close> is the plain \<^verbatim>\<open>Exception(msg)\<close> the two baseline
  classifiers raise; the others are the built-in exceptions the code can run into.
\<close>

datatype exn =
    Exception string
  | IndexError
  | ZeroDivisionError
  | ValueError
  | NotImplementedError

subsection \<open>Floats\<close>

text \<open>
  A finite Python float is an IEEE binary64 number and is represented by the rational it
  denotes. Every arithmetic operation returns the exact result rounded to the nearest
  number with a 53-bit significand, ties to even: \<open>ilog2 q\<close> is the exponent
  \<open>floor(log2 q)\<close> of a positive \<open>q\<close>, and \<open>round_double\<close> rounds \<open>q\<close> to a multiple of
  \<open>2 ^ (ilog2 |q| - 52)\<close>. The exponent range is not bounded: the numbers below are
  counts, list lengths and their quotients, far from overflow and underflow.
\<close>

definition round_half_even :: "rat \<Rightarrow> int" where
  "round_half_even q =
     (let f = \<lfloor>q\<rfloor>; r = q - of_int f
      in if r < 1 / 2 then f else if 1 / 2 < r then f + 1 else if even f then f else f + 1)"

definition ilog2 :: "rat \<Rightarrow> int" where
  "ilog2 q = (if 1 \<le> q then bitlen \<lfloor>q\<rfloor> - 1 else - bitlen (\<lceil>1 / q\<rceil> - 1))"

definition round_double :: "rat \<Rightarrow> rat" where
  "round_double q =
     (if q = 0 then 0
      else let u = power_int 2 (ilog2 \<bar>q\<bar> - 52)
           in of_int (round_half_even (q / u)) * u)"

text \<open>\<^verbatim>\<open>float(n)\<close> of an integer, and the four operations on floats.\<close>

definition float_of_nat :: "nat \<Rightarrow> rat" where
  "float_of_nat n = round_double (of_nat n)"

definition float_of_int :: "int \<Rightarrow> rat" where
  "float_of_int n = round_double (of_int n)"

definition fl_add :: "rat \<Rightarrow> rat \<Rightarrow> rat" where
  "fl_add a b = round_double (a + b)"

definition fl_sub :: "rat \<Rightarrow> rat \<Rightarrow> rat" where
  "fl_sub a b = round_double (a - b)"

definition fl_mul :: "rat \<Rightarrow> rat \<Rightarrow> rat" where
  "fl_mul a b = round_double (a * b)"

definition fl_div :: "rat \<Rightarrow> rat \<Rightarrow> rat" where
  "fl_div a b = round_double (a / b)"

text \<open>
  The error totals of the evaluators are floats that can be NaN (the accuracy of an empty
  partition); NaN propagates through the arithmetic.
\<close>

datatype pyfloat = Fin rat | NaN

fun pf_add :: "pyfloat \<Rightarrow> pyfloat \<Rightarrow> pyfloat" where
  "pf_add (Fin a) (Fin b) = Fin (fl_add a b)"
| "pf_add _ _ = NaN"

fun pf_sub :: "pyfloat \<Rightarrow> pyfloat \<Rightarrow> pyfloat" where
  "pf_sub (Fin a) (Fin b) = Fin (fl_sub a b)"
| "pf_sub _ _ = NaN"

text \<open>
  \<^verbatim>\<open>total / ntrials\<close> with an integer \<open>ntrials\<close>. When \<open>ntrials\<close> is 0 the loops below
  have not run, the total is still the integer 0, and Python raises ZeroDivisionError.
\<close>

definition pf_div_int :: "pyfloat \<Rightarrow> int \<Rightarrow> exn + pyfloat" where
  "pf_div_int v n =
     (if n = 0 then Inl ZeroDivisionError
      else case v of Fin a \<Rightarrow> Inr (Fin (fl_div a (float_of_int n))) | NaN \<Rightarrow> Inr NaN)"

text \<open>An omitted keyword argument takes the default written in the \<^verbatim>\<open>def\<close> line.\<close>

definition arg_or :: "'a option \<Rightarrow> 'a \<Rightarrow> 'a" where
  "arg_or a d = (case a of None \<Rightarrow> d | Some v \<Rightarrow> v)"

text \<open>
  \<^verbatim>\<open>int(x)\<close> on a float truncates towards zero; \<^verbatim>\<open>xs[:k]\<close> keeps the first \<open>k\<close>
  elements, and for a negative \<open>k\<close> drops the last \<open>-k\<close>.
\<close>

definition py_int :: "rat \<Rightarrow> int" where
  "py_int q = (if 0 \<le> q then \<lfloor>q\<rfloor> else \<lceil>q\<rceil>)"

definition slice_to :: "'a list \<Rightarrow> int \<Rightarrow> 'a list" where
  "slice_to xs k = (if 0 \<le> k then take (nat k) xs else take (length xs - nat (- k)) xs)"

subsection \<open>collections.Counter\<close>

text \<open>
  \<^verbatim>\<open>Counter(y)\<close> counts the elements of \<open>y\<close> one by one; its entries are kept here in
  first-seen order. \<^verbatim>\<open>c[k]\<close> of a missing key is 0. \<^verbatim>\<open>most_common(1)\<close> is
  \<^verbatim>\<open>max\<close> over the items by count, which returns the first maximal item, and the empty
  list when there is no item. Keys are compared with \<^verbatim>\<open>==\<close>, which is equality on the
  labels modelled here (numbers and \<^verbatim>\<open>None\<close>; a float NaN is not one of them).
\<close>

fun counter_incr :: "'l \<Rightarrow> ('l \<times> nat) list \<Rightarrow> ('l \<times> nat) list" where
  "counter_incr x [] = [(x, 1)]"
| "counter_incr x ((k, c) # kcs) =
     (if k = x then (k, c + 1) # kcs else (k, c) # counter_incr x kcs)"

definition Counter :: "'l list \<Rightarrow> ('l \<times> nat) list" where
  "Counter y = foldl (\<lambda>m x. counter_incr x m) [] y"

definition counter_get :: "('l \<times> nat) list \<Rightarrow> 'l \<Rightarrow> nat" where
  "counter_get m k = (case map_of m k of None \<Rightarrow> 0 | Some c \<Rightarrow> c)"

fun max_by_count :: "('l \<times> nat) \<Rightarrow> ('l \<times> nat) list \<Rightarrow> ('l \<times> nat)" where
  "max_by_count best [] = best"
| "max_by_count best (kc # kcs) =
     max_by_count (if snd best < snd kc then kc else best) kcs"

definition most_common1 :: "('l \<times> nat) list \<Rightarrow> ('l \<times> nat) list" where
  "most_common1 m = (case m of [] \<Rightarrow> [] | kc # kcs \<Rightarrow> [max_by_count kc kcs])"

section \<open>The baseline classifiers\<close>

text \<open>
  An instance is a record of its attributes (\<^verbatim>\<open>prediction_\<close> and \<^verbatim>\<open>probabilities_\<close> in
  the source; a name cannot end in an underscore here). A method takes the instance and
  returns what the source returns; \<^verbatim>\<open>fit\<close> assigns an attribute and returns \<^verbatim>\<open>self\<close>,
  so it returns the instance after the assignment. The feature matrix \<open>X\<close> is a
  two-dimensional array, given as the list of its rows, so that \<^verbatim>\<open>n,d = X.shape\<close>
  binds \<open>n\<close> to \<open>length X\<close>.

  A label is any Python value, \<^verbatim>\<open>None\<close> included: a label is an \<open>'l option\<close>, and
  \<open>None\<close> is Python's \<^verbatim>\<open>None\<close>. The attribute \<^verbatim>\<open>prediction_\<close> holds \<^verbatim>\<open>None\<close> at
  construction and the majority label itself after \<^verbatim>\<open>fit\<close>.
\<close>

definition not_initialized :: exn where
  "not_initialized = Exception ''Classifier not initialized. Perform a fit first.''"

record 'l MajorityVoteClassifier =
  prediction :: "'l option"

definition MajorityVoteClassifier_init :: "'l MajorityVoteClassifier" where
  "MajorityVoteClassifier_init = \<lparr>prediction = None\<rparr>"

definition MajorityVoteClassifier_fit ::
  "('l, 'z) MajorityVoteClassifier_scheme \<Rightarrow> 'x list \<Rightarrow> 'l option list \<Rightarrow>
     exn + ('l, 'z) MajorityVoteClassifier_scheme" where
  "MajorityVoteClassifier_fit self X y =
     (case most_common1 (Counter y) of
        [] \<Rightarrow> Inl IndexError
      | (majority_val, _) # _ \<Rightarrow> Inr (self\<lparr>prediction := majority_val\<rparr>))"

definition MajorityVoteClassifier_predict ::
  "('l, 'z) MajorityVoteClassifier_scheme \<Rightarrow> 'x list \<Rightarrow> exn + 'l option list" where
  "MajorityVoteClassifier_predict self X =
     (if prediction self = None then Inl not_initialized
      else Inr (replicate (length X) (prediction self)))"

text \<open>
  The labels of the random classifier are numbers: the counter is read at the keys
  \<^verbatim>\<open>0.0\<close> and \<^verbatim>\<open>1.0\<close>. Both counts are converted to Python floats, so that a zero
  denominator raises ZeroDivisionError; \<^verbatim>\<open>probabilities_\<close> is \<^verbatim>\<open>None\<close> or a float.
\<close>

record RandomClassifier =
  probabilities :: "rat option"

definition RandomClassifier_init :: RandomClassifier where
  "RandomClassifier_init = \<lparr>probabilities = None\<rparr>"

definition RandomClassifier_fit ::
  "'z RandomClassifier_scheme \<Rightarrow> 'x list \<Rightarrow> rat list \<Rightarrow> exn + 'z RandomClassifier_scheme" where
  "RandomClassifier_fit self X y =
     (let cur_dist = Counter y;
          denominator = fl_add (float_of_nat (counter_get cur_dist 0))
                               (float_of_nat (counter_get cur_dist 1))
      in if denominator = 0 then Inl ZeroDivisionError
         else Inr (self\<lparr>probabilities :=
                     Some (fl_div (float_of_nat (counter_get cur_dist 0)) denominator)\<rparr>))"

text \<open>
  numpy's global generator is an external library: its state type \<open>'g\<close>, seeding and
  sampling are parameters. \<^verbatim>\<open>np.random.seed(seed)\<close> replaces the global state by one
  that \<open>seed\<close> determines, \<^verbatim>\<open>np.random.choice(a, size, p=p)\<close> draws \<open>size\<close> values from
  \<open>range(a)\<close> and advances the state. Either raises ValueError on an argument it
  rejects, which is \<open>None\<close> here.
\<close>

record 'g np_random =
  np_seed :: "int \<Rightarrow> 'g option"
  np_choice :: "'g \<Rightarrow> nat \<Rightarrow> nat \<Rightarrow> rat list \<Rightarrow> (nat list \<times> 'g) option"

text \<open>
  \<^verbatim>\<open>predict(self, X, seed=1234)\<close> takes the global generator state \<open>g\<close> of the moment of
  the call and returns the labels with the state it leaves behind. The drawn integers
  0 and 1 are compared with the labels as numbers.
\<close>

definition RandomClassifier_predict ::
  "'g np_random \<Rightarrow> 'z RandomClassifier_scheme \<Rightarrow> 'x list \<Rightarrow> int option \<Rightarrow> 'g \<Rightarrow>
     exn + (rat list \<times> 'g)" where
  "RandomClassifier_predict np self X seed g =
     (case probabilities self of
        None \<Rightarrow> Inl not_initialized
      | Some p \<Rightarrow>
          (case np_seed np (arg_or seed 1234) of
             None \<Rightarrow> Inl ValueError
           | Some g1 \<Rightarrow>
               (case np_choice np g1 2 (length X) [p, fl_sub 1 p] of
                  None \<Rightarrow> Inl ValueError
                | Some (ys, g2) \<Rightarrow> Inr (map of_nat ys, g2))))"

section \<open>The classifier interface\<close>

text \<open>
  The evaluators call \<^verbatim>\<open>clf.fit(X, y)\<close> and \<^verbatim>\<open>clf.predict(X)\<close> on any object that has
  the two methods. Such an object is a pair of functions on the state \<open>'s\<close> it can
  touch: \<open>fit\<close> returns the state after the call, \<open>predict\<close> the labels and the state
  after the call.
\<close>

record ('s, 'x, 'l) classifier =
  fit :: "'s \<Rightarrow> 'x list \<Rightarrow> 'l list \<Rightarrow> exn + 's"
  predict :: "'s \<Rightarrow> 'x list \<Rightarrow> exn + ('l list \<times> 's)"

text \<open>The base class \<^verbatim>\<open>Classifier\<close>: both methods raise NotImplementedError.\<close>

definition Classifier :: "('s, 'x, 'l) classifier" where
  "Classifier = \<lparr>fit = (\<lambda>self X y. Inl NotImplementedError),
                 predict = (\<lambda>self X. Inl NotImplementedError)\<rparr>"

definition MajorityVote_clf ::
  "(('l, 'z) MajorityVoteClassifier_scheme, 'x, 'l option) classifier" where
  "MajorityVote_clf =
     \<lparr>fit = MajorityVoteClassifier_fit,
      predict = (\<lambda>self X.
        case MajorityVoteClassifier_predict self X of
          Inl e \<Rightarrow> Inl e
        | Inr ys \<Rightarrow> Inr (ys, self))\<rparr>"

text \<open>
  The state of a random classifier is the instance and the global generator. Through the
  interface \<^verbatim>\<open>predict\<close> is called with \<open>X\<close> alone, so \<open>seed\<close> is omitted.
\<close>

definition Random_clf ::
  "'g np_random \<Rightarrow> ('z RandomClassifier_scheme \<times> 'g, 'x, rat) classifier" where
  "Random_clf np =
     \<lparr>fit = (\<lambda>(self, g) X y.
        case RandomClassifier_fit self X y of
          Inl e \<Rightarrow> Inl e
        | Inr self' \<Rightarrow> Inr (self', g)),
      predict = (\<lambda>(self, g) X.
        case RandomClassifier_predict np self X None g of
          Inl e \<Rightarrow> Inl e
        | Inr (ys, g') \<Rightarrow> Inr (ys, (self, g')))\<rparr>"

section \<open>The repeated-holdout evaluators\<close>

text \<open>
  \<^verbatim>\<open>train_test_split\<close> is an external library function and a parameter here: from
  \<open>X\<close>, \<open>y\<close>, \<open>test_size\<close> and \<open>random_state\<close> it returns
  \<open>(X_train, X_test, y_train, y_test)\<close>, or raises ValueError (\<open>None\<close>).
\<close>

type_synonym ('x, 'l) splitter =
  "'x list \<Rightarrow> 'l list \<Rightarrow> rat \<Rightarrow> nat \<Rightarrow> ('x list \<times> 'x list \<times> 'l list \<times> 'l list) option"

text \<open>
  Modelled from the spec: \<^verbatim>\<open>metrics.accuracy_score(y_true, y_pred, normalize=True)\<close> is
  an external library function; it returns the fraction of predictions exactly equal to
  the true label, a float. Sequences of different lengths are rejected with ValueError,
  and the fraction over no element at all is NaN.
\<close>

definition accuracy_score :: "'l list \<Rightarrow> 'l list \<Rightarrow> exn + pyfloat" where
  "accuracy_score y_true y_pred =
     (if length y_true \<noteq> length y_pred then Inl ValueError
      else if y_true = [] then Inr NaN
      else Inr (Fin (fl_div
             (float_of_nat (length (filter (\<lambda>(t, p). t = p) (zip y_true y_pred))))
             (float_of_nat (length y_true)))))"

text \<open>
  The loop \<^verbatim>\<open>for i in range(0, ntrials)\<close> of \<^verbatim>\<open>error\<close>, over the list of the indices
  still to run, with the classifier's state and the two running totals.
\<close>

fun error_loop ::
  "('x, 'l) splitter \<Rightarrow> ('s, 'x, 'l) classifier \<Rightarrow> 'x list \<Rightarrow> 'l list \<Rightarrow> rat \<Rightarrow>
     nat list \<Rightarrow> 's \<times> pyfloat \<times> pyfloat \<Rightarrow> exn + ('s \<times> pyfloat \<times> pyfloat)" where
  "error_loop train_test_split clf X y test_size [] acc = Inr acc"
| "error_loop train_test_split clf X y test_size (i # is) (s, train_error, test_error) =
     (case train_test_split X y test_size i of
        None \<Rightarrow> Inl ValueError
      | Some (X_train, X_test, y_train, y_test) \<Rightarrow>
     (case fit clf s X_train y_train of
        Inl e \<Rightarrow> Inl e
      | Inr s1 \<Rightarrow>
     (case predict clf s1 X_train of
        Inl e \<Rightarrow> Inl e
      | Inr (y_train_pred, s2) \<Rightarrow>
     (case predict clf s2 X_test of
        Inl e \<Rightarrow> Inl e
      | Inr (y_test_pred, s3) \<Rightarrow>
     (case accuracy_score y_train y_train_pred of
        Inl e \<Rightarrow> Inl e
      | Inr a_train \<Rightarrow>
     (case accuracy_score y_test y_test_pred of
        Inl e \<Rightarrow> Inl e
      | Inr a_test \<Rightarrow>
          error_loop train_test_split clf X y test_size is
            (s3, pf_add train_error (pf_sub (Fin 1) a_train),
                 pf_add test_error (pf_sub (Fin 1) a_test))))))))"

text \<open>
  \<^verbatim>\<open>error(clf, X, y, ntrials=100, test_size=0.2)\<close>. \<open>ntrials\<close> is any integer:
  \<^verbatim>\<open>range(0, ntrials)\<close> is empty when it is not positive. The result is the pair the
  source returns together with the state the classifier is left in.
\<close>

definition error ::
  "('x, 'l) splitter \<Rightarrow> ('s, 'x, 'l) classifier \<Rightarrow> 's \<Rightarrow> 'x list \<Rightarrow> 'l list \<Rightarrow>
     int option \<Rightarrow> rat option \<Rightarrow> exn + ((pyfloat \<times> pyfloat) \<times> 's)" where
  "error train_test_split clf s X y ntrials_arg test_size_arg =
     (let ntrials = arg_or ntrials_arg 100;
          test_size = arg_or test_size_arg (round_double (2 / 10))
      in case error_loop train_test_split clf X y test_size [0..<nat ntrials]
                (s, Fin 0, Fin 0) of
           Inl e \<Rightarrow> Inl e
         | Inr (s', train_error, test_error) \<Rightarrow>
             (case pf_div_int train_error ntrials of
                Inl e \<Rightarrow> Inl e
              | Inr train_avg \<Rightarrow>
                  (case pf_div_int test_error ntrials of
                     Inl e \<Rightarrow> Inl e
                   | Inr test_avg \<Rightarrow> Inr ((train_avg, test_avg), s'))))"

text \<open>
  \<^verbatim>\<open>partial_amt = partial_amt/10.0\<close>, and the cut
  \<^verbatim>\<open>X_train[:int(len(X_train)*partial_amt)]\<close> of \<^verbatim>\<open>error_partial\<close>, both in floats.
\<close>

definition partial_fraction :: "int \<Rightarrow> rat" where
  "partial_fraction partial_amt = fl_div (float_of_int partial_amt) 10"

definition truncate_rows :: "'a list \<Rightarrow> rat \<Rightarrow> 'a list" where
  "truncate_rows xs partial_amt =
     slice_to xs (py_int (fl_mul (float_of_nat (length xs)) partial_amt))"

fun error_partial_loop ::
  "('x, 'l) splitter \<Rightarrow> ('s, 'x, 'l) classifier \<Rightarrow> 'x list \<Rightarrow> 'l list \<Rightarrow> rat \<Rightarrow> rat \<Rightarrow>
     nat list \<Rightarrow> 's \<times> pyfloat \<times> pyfloat \<Rightarrow> exn + ('s \<times> pyfloat \<times> pyfloat)" where
  "error_partial_loop train_test_split clf X y test_size partial_amt [] acc = Inr acc"
| "error_partial_loop train_test_split clf X y test_size partial_amt (i # is)
       (s, train_error, test_error) =
     (case train_test_split X y test_size i of
        None \<Rightarrow> Inl ValueError
      | Some (X_train0, X_test, y_train0, y_test) \<Rightarrow>
     (let X_train = truncate_rows X_train0 partial_amt;
          y_train = truncate_rows y_train0 partial_amt
      in
     (case fit clf s X_train y_train of
        Inl e \<Rightarrow> Inl e
      | Inr s1 \<Rightarrow>
     (case predict clf s1 X_train of
        Inl e \<Rightarrow> Inl e
      | Inr (y_train_pred, s2) \<Rightarrow>
     (case predict clf s2 X_test of
        Inl e \<Rightarrow> Inl e
      | Inr (y_test_pred, s3) \<Rightarrow>
     (case accuracy_score y_train y_train_pred of
        Inl e \<Rightarrow> Inl e
      | Inr a_train \<Rightarrow>
     (case accuracy_score y_test y_test_pred of
        Inl e \<Rightarrow> Inl e
      | Inr a_test \<Rightarrow>
          error_partial_loop train_test_split clf X y test_size partial_amt is
            (s3, pf_add train_error (pf_sub (Fin 1) a_train),
                 pf_add test_error (pf_sub (Fin 1) a_test)))))))))"

definition error_partial ::
  "('x, 'l) splitter \<Rightarrow> ('s, 'x, 'l) classifier \<Rightarrow> 's \<Rightarrow> 'x list \<Rightarrow> 'l list \<Rightarrow>
     int option \<Rightarrow> rat option \<Rightarrow> int option \<Rightarrow> exn + ((pyfloat \<times> pyfloat) \<times> 's)" where
  "error_partial train_test_split clf s X y ntrials_arg test_size_arg partial_amt_arg =
     (let ntrials = arg_or ntrials_arg 100;
          test_size = arg_or test_size_arg (round_double (2 / 10));
          partial_amt = partial_fraction (arg_or partial_amt_arg 10)
      in case error_partial_loop train_test_split clf X y test_size partial_amt
                [0..<nat ntrials] (s, Fin 0, Fin 0) of
           Inl e \<Rightarrow> Inl e
         | Inr (s', train_error, test_error) \<Rightarrow>
             (case pf_div_int train_error ntrials of
                Inl e \<Rightarrow> Inl e
              | Inr train_avg \<Rightarrow>
                  (case pf_div_int test_error ntrials of
                     Inl e \<Rightarrow> Inl e
                   | Inr test_avg \<Rightarrow> Inr ((train_avg, test_avg), s'))))"

section \<open>The evaluators as the specification words them\<close>

text \<open>
  One trial, in the words of the specification: split \<open>(X, y)\<close> with
  \<open>random_state = i\<close> and fraction \<open>test_size\<close>, fit on the training partition, predict
  on both partitions, and contribute \<open>1 - accuracy\<close> for each.
\<close>

definition trial_spec ::
  "('x, 'l) splitter \<Rightarrow> ('s, 'x, 'l) classifier \<Rightarrow> 'x list \<Rightarrow> 'l list \<Rightarrow> rat \<Rightarrow>
     's \<Rightarrow> nat \<Rightarrow> exn + ((pyfloat \<times> pyfloat) \<times> 's)" where
  "trial_spec split clf X y test_size s i =
     (case split X y test_size i of
        None \<Rightarrow> Inl ValueError
      | Some (X_train, X_test, y_train, y_test) \<Rightarrow>
          (case fit clf s X_train y_train of
             Inl e \<Rightarrow> Inl e
           | Inr s_fit \<Rightarrow>
               (case predict clf s_fit X_train of
                  Inl e \<Rightarrow> Inl e
                | Inr (pred_train, s_a) \<Rightarrow>
                    (case predict clf s_a X_test of
                       Inl e \<Rightarrow> Inl e
                     | Inr (pred_test, s_b) \<Rightarrow>
                         (case accuracy_score y_train pred_train of
                            Inl e \<Rightarrow> Inl e
                          | Inr acc_train \<Rightarrow>
                              (case accuracy_score y_test pred_test of
                                 Inl e \<Rightarrow> Inl e
                               | Inr acc_test \<Rightarrow>
                                   Inr ((pf_sub (Fin 1) acc_train,
                                         pf_sub (Fin 1) acc_test), s_b)))))))"

text \<open>
  The trials of a list of indices, one after the other on the same classifier: the list
  of their contributions, or the first failure.
\<close>

fun trials_spec ::
  "('x, 'l) splitter \<Rightarrow> ('s, 'x, 'l) classifier \<Rightarrow> 'x list \<Rightarrow> 'l list \<Rightarrow> rat \<Rightarrow>
     's \<Rightarrow> nat list \<Rightarrow> exn + ((pyfloat \<times> pyfloat) list \<times> 's)" where
  "trials_spec split clf X y test_size s [] = Inr ([], s)"
| "trials_spec split clf X y test_size s (i # is) =
     (case trial_spec split clf X y test_size s i of
        Inl e \<Rightarrow> Inl e
      | Inr (c, s1) \<Rightarrow>
          (case trials_spec split clf X y test_size s1 is of
             Inl e \<Rightarrow> Inl e
           | Inr (cs, s2) \<Rightarrow> Inr (c # cs, s2)))"

text \<open>The float sum of a list, from the left and from 0, and its mean over \<open>n\<close>.\<close>

definition pf_sum :: "pyfloat list \<Rightarrow> pyfloat" where
  "pf_sum vs = foldl pf_add (Fin 0) vs"

definition pf_mean :: "pyfloat list \<Rightarrow> int \<Rightarrow> pyfloat" where
  "pf_mean vs n = (case pf_sum vs of Fin a \<Rightarrow> Fin (fl_div a (float_of_int n)) | NaN \<Rightarrow> NaN)"

definition error_spec ::
  "('x, 'l) splitter \<Rightarrow> ('s, 'x, 'l) classifier \<Rightarrow> 's \<Rightarrow> 'x list \<Rightarrow> 'l list \<Rightarrow>
     int \<Rightarrow> rat \<Rightarrow> exn + ((pyfloat \<times> pyfloat) \<times> 's)" where
  "error_spec split clf s X y ntrials test_size =
     (case trials_spec split clf X y test_size s [0..<nat ntrials] of
        Inl e \<Rightarrow> Inl e
      | Inr (cs, s') \<Rightarrow>
          Inr ((pf_mean (map fst cs) ntrials, pf_mean (map snd cs) ntrials), s'))"

text \<open>
  The truncation of \<^verbatim>\<open>error_partial\<close>, in the words of the specification: a split
  whose training partition is cut to its first \<open>floor(len * partial_amt / 10)\<close> rows.
\<close>

definition truncate_train :: "int \<Rightarrow> ('x, 'l) splitter \<Rightarrow> ('x, 'l) splitter" where
  "truncate_train partial_amt split X y test_size i =
     (case split X y test_size i of
        None \<Rightarrow> None
      | Some (X_train, X_test, y_train, y_test) \<Rightarrow>
          Some (take (nat \<lfloor>of_nat (length X_train) * of_int partial_amt / (10::rat)\<rfloor>) X_train,
                X_test,
                take (nat \<lfloor>of_nat (length y_train) * of_int partial_amt / (10::rat)\<rfloor>) y_train,
                y_test))"

text \<open>The same split with the cut the source computes.\<close>

definition truncate_train_source :: "rat \<Rightarrow> ('x, 'l) splitter \<Rightarrow> ('x, 'l) splitter" where
  "truncate_train_source partial_amt split X y test_size i =
     (case split X y test_size i of
        None \<Rightarrow> None
      | Some (X_train, X_test, y_train, y_test) \<Rightarrow>
          Some (truncate_rows X_train partial_amt, X_test,
                truncate_rows y_train partial_amt, y_test))"

text \<open>
  What a generator has to guarantee for its draws to be labels: \<open>size\<close> values, each
  below \<open>a\<close>.
\<close>

definition np_valid :: "'g np_random \<Rightarrow> bool" where
  "np_valid np =
     (\<forall>g a n p ys g'. np_choice np g a n p = Some (ys, g') \<longrightarrow>
        length ys = n \<and> (\<forall>v \<in> set ys. v < a))"

section \<open>Concrete collaborators\<close>

text \<open>
  A split, a generator and a classifier to run the definitions on concrete data. The split
  rotates the rows by \<open>random_state\<close> and holds out the last \<open>ceil(test_size * n)\<close> of
  them; the generator counts upwards from its seed; the classifier has no state, learns
  nothing and predicts the label \<open>c\<close> for every row.
\<close>

definition rotate_split :: "('x, 'l) splitter" where
  "rotate_split X y test_size random_state =
     (let n = length X; n_test = nat \<lceil>test_size * of_nat n\<rceil>
      in if length y \<noteq> n \<or> test_size < 0 \<or> 1 < test_size then None
         else Some (take (n - n_test) (rotate random_state X),
                    drop (n - n_test) (rotate random_state X),
                    take (n - n_test) (rotate random_state y),
                    drop (n - n_test) (rotate random_state y)))"

definition counting_np :: "nat np_random" where
  "counting_np =
     \<lparr>np_seed = (\<lambda>seed. if 0 \<le> seed \<and> seed < 2 ^ 32 then Some (nat seed) else None),
      np_choice = (\<lambda>g a n p.
        if a = 0 \<or> length p \<noteq> a \<or> sum_list p \<noteq> 1 \<or> \<not> list_all (\<lambda>q. 0 \<le> q) p then None
        else Some (map (\<lambda>k. (g + k) mod a) [0..<n], g + n))\<rparr>"

definition Constant_clf :: "'l \<Rightarrow> (unit, 'x, 'l) classifier" where
  "Constant_clf c =
     \<lparr>fit = (\<lambda>self X y. Inr self),
      predict = (\<lambda>self X. Inr (replicate (length X) c, self))\<rparr>"

section \<open>Facts about float rounding\<close>

text \<open>
  Rounding keeps a number that is not negative not negative and a number that is at least
  1 at least 1, and it leaves the natural numbers below \<open>2 ^ 53\<close> as they are.
\<close>

lemma round_half_even_of_int: "round_half_even (of_int m) = m"
  by (simp add: round_half_even_def)

lemma round_half_even_ge_floor: "\<lfloor>q\<rfloor> \<le> round_half_even q"
  by (simp add: round_half_even_def Let_def)

lemma round_double_nonneg:
  assumes "0 \<le> q" shows "0 \<le> round_double q"
proof (cases "q = 0")
  case True then show ?thesis by (simp add: round_double_def)
next
  case False
  define u :: rat where "u = power_int 2 (ilog2 \<bar>q\<bar> - 52)"
  have upos: "0 < u" by (simp add: u_def)
  have "0 \<le> q / u" using assms upos by simp
  then have "0 \<le> \<lfloor>q / u\<rfloor>" by simp
  then have "0 \<le> round_half_even (q / u)"
    using round_half_even_ge_floor[of "q / u"] by linarith
  then have "0 \<le> of_int (round_half_even (q / u)) * u" using upos by simp
  moreover have "round_double q = of_int (round_half_even (q / u)) * u"
    using False by (simp add: round_double_def Let_def u_def)
  ultimately show ?thesis by simp
qed

lemma round_double_of_nat:
  assumes "n < 2 ^ 53" shows "round_double (of_nat n) = of_nat n"
proof (cases "n = 0")
  case True then show ?thesis by (simp add: round_double_def)
next
  case False
  define e where "e = bitlen (int n) - 1"
  have b1: "bitlen (int n) \<le> 53" using assms less_power_nat_iff_bitlen[of n 53] by simp
  have b2: "1 \<le> bitlen (int n)"
    using False bitlen_eq_zero_iff[of "int n"] bitlen_nonneg[of "int n"] by linarith
  have e: "0 \<le> e" "e \<le> 52" using b1 b2 by (simp_all add: e_def)
  define k where "k = nat (52 - e)"
  have il: "ilog2 (of_nat n) = e" using False by (simp add: ilog2_def e_def)
  have u: "power_int (2::rat) (e - 52) = 1 / 2 ^ k"
    using e by (simp add: power_int_def k_def inverse_eq_divide power_one_over)
  have "(of_nat n :: rat) / (1 / 2 ^ k) = of_int (int n * 2 ^ k)" by simp
  then have r: "round_half_even ((of_nat n :: rat) / (1 / 2 ^ k)) = int n * 2 ^ k"
    by (simp only: round_half_even_of_int)
  have "round_double (of_nat n) = of_int (round_half_even ((of_nat n :: rat) / (1 / 2 ^ k))) * (1 / 2 ^ k)"
    using False by (simp add: round_double_def il u Let_def)
  also have "\<dots> = of_nat n" unfolding r by simp
  finally show ?thesis .
qed

lemma round_double_ge_1:
  assumes "1 \<le> q" shows "1 \<le> round_double q"
proof -
  define e where "e = bitlen \<lfloor>q\<rfloor> - 1"
  have fq: "0 < \<lfloor>q\<rfloor>" using assms by simp
  from bitlen_bounds[OF fq] have lo: "2 ^ nat e \<le> \<lfloor>q\<rfloor>" by (simp add: e_def)
  have e0: "0 \<le> e"
    using fq bitlen_eq_zero_iff[of "\<lfloor>q\<rfloor>"] bitlen_nonneg[of "\<lfloor>q\<rfloor>"] unfolding e_def by linarith
  have il: "ilog2 q = e" using assms by (simp add: ilog2_def e_def)
  define u :: rat where "u = power_int 2 (e - 52)"
  have upos: "0 < u" by (simp add: u_def)
  have pe: "power_int (2::rat) e = 2 ^ nat e" using e0 by (simp add: power_int_def)
  have "(2::rat) ^ nat e \<le> of_int \<lfloor>q\<rfloor>"
    using lo by (metis of_int_le_iff of_int_numeral of_int_power)
  also have "\<dots> \<le> q" by simp
  finally have qe: "power_int 2 e \<le> q" by (simp add: pe)
  have ue: "u * 2 ^ 52 = power_int 2 e" unfolding u_def by (simp add: power_int_diff)
  have "(2::rat) ^ 52 = power_int 2 e / u" using ue upos by (simp add: field_simps)
  also have "\<dots> \<le> q / u" using qe upos by (simp add: divide_right_mono)
  finally have "(2::rat) ^ 52 \<le> q / u" .
  then have "(2::int) ^ 52 \<le> \<lfloor>q / u\<rfloor>" by (metis le_floor_iff of_int_numeral of_int_power)
  then have r: "(2::int) ^ 52 \<le> round_half_even (q / u)"
    using round_half_even_ge_floor[of "q / u"] by linarith
  have "(1::rat) \<le> power_int 2 e" by (simp add: pe)
  also have "\<dots> = 2 ^ 52 * u" using ue by (simp add: mult.commute)
  also have "\<dots> \<le> of_int (round_half_even (q / u)) * u"
  proof -
    have "(2::rat) ^ 52 \<le> of_int (round_half_even (q / u))"
      using r by (metis of_int_le_iff of_int_numeral of_int_power)
    then show ?thesis using upos by (simp add: mult_right_mono)
  qed
  finally have "1 \<le> of_int (round_half_even (q / u)) * u" .
  moreover have "round_double q = of_int (round_half_even (q / u)) * u"
    using assms by (simp add: round_double_def il Let_def u_def)
  ultimately show ?thesis by simp
qed

lemma float_of_nat_nonneg: "0 \<le> float_of_nat n"
  unfolding float_of_nat_def by (rule round_double_nonneg) simp

lemma float_of_nat_ge_1: "0 < n \<Longrightarrow> 1 \<le> float_of_nat n"
  unfolding float_of_nat_def by (rule round_double_ge_1) simp

lemma float_of_nat_exact: "n < 2 ^ 53 \<Longrightarrow> float_of_nat n = of_nat n"
  unfolding float_of_nat_def by (rule round_double_of_nat)

lemma float_of_nat_0: "float_of_nat 0 = 0"
  by (simp add: float_of_nat_def round_double_def)

lemma float_sum_zero_iff:
  "fl_add (float_of_nat a) (float_of_nat b) = 0 \<longleftrightarrow> a = 0 \<and> b = 0"
proof
  assume z: "fl_add (float_of_nat a) (float_of_nat b) = 0"
  show "a = 0 \<and> b = 0"
  proof (rule ccontr)
    assume "\<not> (a = 0 \<and> b = 0)"
    then have "0 < a \<or> 0 < b" by auto
    then have "1 \<le> float_of_nat a + float_of_nat b"
      using float_of_nat_ge_1[of a] float_of_nat_ge_1[of b]
        float_of_nat_nonneg[of a] float_of_nat_nonneg[of b] by linarith
    then have "1 \<le> fl_add (float_of_nat a) (float_of_nat b)"
      unfolding fl_add_def by (rule round_double_ge_1)
    with z show False by simp
  qed
next
  assume "a = 0 \<and> b = 0"
  then show "fl_add (float_of_nat a) (float_of_nat b) = 0"
    by (simp add: float_of_nat_0 fl_add_def round_double_def)
qed

lemma float_quotient_exact:
  assumes "a + b < 2 ^ 53"
  shows "fl_div (float_of_nat a) (fl_add (float_of_nat a) (float_of_nat b))
           = round_double (of_nat a / (of_nat a + of_nat b))"
proof -
  have a: "float_of_nat a = of_nat a" and b: "float_of_nat b = of_nat b"
    using assms by (simp_all add: float_of_nat_exact)
  have "fl_add (of_nat a) (of_nat b) = round_double (of_nat (a + b))"
    by (simp add: fl_add_def)
  also have "\<dots> = of_nat (a + b)" using assms by (rule round_double_of_nat)
  finally show ?thesis by (simp add: a b fl_div_def)
qed

section \<open>Facts about the counter\<close>

text \<open>
  \<open>Counter y\<close> holds every element of \<open>y\<close> once, with the number of its occurrences, and
  \<^verbatim>\<open>most_common(1)\<close> finds a value that occurs more often than every other one.
\<close>

lemma map_of_counter_incr:
  "map_of (counter_incr x m) k =
     (if k = x then Some (Suc (counter_get m x)) else map_of m k)"
  by (induction m) (auto simp: counter_get_def)

lemma counter_get_incr:
  "counter_get (counter_incr x m) k = counter_get m k + (if k = x then 1 else 0)"
  by (simp add: counter_get_def map_of_counter_incr)

lemma counter_get_foldl:
  "counter_get (foldl (\<lambda>m x. counter_incr x m) m y) k = counter_get m k + count_list y k"
  by (induction y arbitrary: m) (auto simp: counter_get_incr)

lemma counter_get_Counter: "counter_get (Counter y) k = count_list y k"
  unfolding Counter_def counter_get_foldl by (simp add: counter_get_def)

lemma keys_counter_incr:
  "map fst (counter_incr x m) = (if x \<in> fst ` set m then map fst m else map fst m @ [x])"
  by (induction m) force+

lemma Counter_foldl_keys:
  "distinct (map fst m) \<Longrightarrow>
   distinct (map fst (foldl (\<lambda>m x. counter_incr x m) m y)) \<and>
   set (map fst (foldl (\<lambda>m x. counter_incr x m) m y)) = set (map fst m) \<union> set y"
proof (induction y arbitrary: m)
  case Nil then show ?case by simp
next
  case (Cons a y)
  have d: "distinct (map fst (counter_incr a m))"
    using Cons.prems by (simp add: keys_counter_incr)
  have s: "set (map fst (counter_incr a m)) = insert a (set (map fst m))"
    by (auto simp: keys_counter_incr)
  show ?case using Cons.IH[OF d] s by auto
qed

lemma distinct_Counter: "distinct (map fst (Counter y))"
  using Counter_foldl_keys[of "[]" y] by (simp add: Counter_def)

lemma keys_Counter: "set (map fst (Counter y)) = set y"
  using Counter_foldl_keys[of "[]" y] by (simp add: Counter_def)

lemma Counter_entry: "(k, c) \<in> set (Counter y) \<Longrightarrow> c = count_list y k"
  using distinct_Counter[of y] counter_get_Counter[of y k]
  by (simp add: counter_get_def)

lemma max_by_count_mem: "max_by_count best kcs \<in> set (best # kcs)"
  by (induction kcs arbitrary: best) (auto split: if_splits)

lemma max_by_count_ge: "kc \<in> set (best # kcs) \<Longrightarrow> snd kc \<le> snd (max_by_count best kcs)"
proof (induction kcs arbitrary: best kc)
  case Nil then show ?case by simp
next
  case (Cons a kcs)
  let ?b = "if snd best < snd a then a else best"
  have b: "snd best \<le> snd (max_by_count ?b kcs)" "snd a \<le> snd (max_by_count ?b kcs)"
    using Cons.IH[where best = ?b and kc = ?b] by (auto split: if_splits)
  show ?case
  proof (cases "kc \<in> set kcs")
    case True then show ?thesis using Cons.IH[where best = ?b and kc = kc] by simp
  next
    case False then show ?thesis using Cons.prems b by auto
  qed
qed

lemma most_common1_max:
  assumes "v \<in> set y" and "\<forall>w \<in> set y. w \<noteq> v \<longrightarrow> count_list y w < count_list y v"
  shows "most_common1 (Counter y) = [(v, count_list y v)]"
proof -
  from assms(1) keys_Counter[of y] obtain kc kcs where m: "Counter y = kc # kcs"
    by (cases "Counter y") auto
  define r where "r = max_by_count kc kcs"
  have rin: "r \<in> set (Counter y)" unfolding r_def m by (rule max_by_count_mem)
  then have rk: "fst r \<in> set y" using keys_Counter[of y] by force
  have rc: "snd r = count_list y (fst r)" using Counter_entry[of "fst r" "snd r" y] rin by simp
  from assms(1) keys_Counter[of y] obtain c where vin: "(v, c) \<in> set (Counter y)" by force
  then have "c = count_list y v" by (rule Counter_entry)
  with vin max_by_count_ge[of "(v, c)" kc kcs] have "count_list y v \<le> snd r"
    unfolding r_def m by simp
  with rc rk assms(2) have "fst r = v" by force
  with rc have "r = (v, count_list y v)" by (cases r) simp
  then show ?thesis by (simp add: most_common1_def m r_def)
qed


section \<open>The baseline classifiers: verified properties\<close>

lemma count_list_0_iff: "count_list y a = 0 \<longleftrightarrow> a \<notin> set y"
  by (induction y) auto

lemma count_binary:
  "set y \<subseteq> {0, 1::rat} \<Longrightarrow> count_list y 0 + count_list y 1 = length y"
  by (induction y) auto

lemma RandomClassifier_fit_eq:
  "RandomClassifier_fit self X y =
     (if count_list y 0 = 0 \<and> count_list y 1 = 0 then Inl ZeroDivisionError
      else Inr (self\<lparr>probabilities :=
             Some (fl_div (float_of_nat (count_list y 0))
                     (fl_add (float_of_nat (count_list y 0)) (float_of_nat (count_list y 1))))\<rparr>))"
  by (simp add: RandomClassifier_fit_def counter_get_Counter float_sum_zero_iff Let_def)

text \<open>
  When \<open>y\<close> has a unique most common label \<open>v\<close>, \<^verbatim>\<open>fit\<close> stores \<open>v\<close>. \<^verbatim>\<open>predict\<close> then
  returns \<open>v\<close> once per row when \<open>v\<close> is not \<^verbatim>\<open>None\<close>, and raises when it is.
\<close>

lemma majority_vote_fit_predict:
  fixes X X' :: "'x list"
  assumes "v \<in> set y" and "\<forall>w \<in> set y. w \<noteq> v \<longrightarrow> count_list y w < count_list y v"
  shows "MajorityVoteClassifier_fit self X y = Inr (self\<lparr>prediction := v\<rparr>)"
    and "v \<noteq> None \<Longrightarrow>
         MajorityVoteClassifier_predict (self\<lparr>prediction := v\<rparr>) X' = Inr (replicate (length X') v)"
    and "v = None \<Longrightarrow>
         MajorityVoteClassifier_predict (self\<lparr>prediction := v\<rparr>) X' = Inl not_initialized"
  using most_common1_max[OF assms]
  by (simp_all add: MajorityVoteClassifier_fit_def MajorityVoteClassifier_predict_def)


text \<open>
  Claim C4. On a non-empty label vector over \<open>{0, 1}\<close>, \<^verbatim>\<open>RandomClassifier.fit\<close>
  succeeds and stores the float quotient of \<open>float(count(y == 0))\<close> by the float sum of the
  two counts. For fewer than \<open>2 ^ 53\<close> labels the conversions and the sum are exact, and
  what is stored is \<open>count(y == 0) / (count(y == 0) + count(y == 1))\<close> rounded once to the
  nearest double. On \<open>[0, 0, 0, 1]\<close> that is \<open>3/4\<close>, which is a double.
\<close>

theorem random_fit_probability:
  fixes X :: "'x list" and self :: "'z RandomClassifier_scheme"
  assumes "y \<noteq> []" and "set y \<subseteq> {0, 1}"
  shows "RandomClassifier_fit self X y
           = Inr (self\<lparr>probabilities :=
               Some (fl_div (float_of_nat (count_list y 0))
                       (fl_add (float_of_nat (count_list y 0)) (float_of_nat (count_list y 1))))\<rparr>) \<and>
         (length y < 2 ^ 53 \<longrightarrow>
            RandomClassifier_fit self X y
              = Inr (self\<lparr>probabilities :=
                  Some (round_double
                     (of_nat (count_list y 0) / (of_nat (count_list y 0) + of_nat (count_list y 1))))\<rparr>))"
proof -
  have n: "count_list y 0 + count_list y 1 = length y" using assms(2) by (rule count_binary)
  with assms(1) have "\<not> (count_list y 0 = 0 \<and> count_list y 1 = 0)" by auto
  then have f: "RandomClassifier_fit self X y
           = Inr (self\<lparr>probabilities :=
               Some (fl_div (float_of_nat (count_list y 0))
                       (fl_add (float_of_nat (count_list y 0)) (float_of_nat (count_list y 1))))\<rparr>)"
    by (simp add: RandomClassifier_fit_eq)
  show ?thesis using f float_quotient_exact[of "count_list y 0" "count_list y 1"] n by simp
qed

theorem random_fit_probability_witness:
  "[0, 0, 0, 1::rat] \<noteq> [] \<and> set [0, 0, 0, 1::rat] \<subseteq> {0, 1} \<and>
   length [0, 0, 0, 1::rat] < 2 ^ 53 \<and>
   RandomClassifier_fit RandomClassifier_init [[7], [8], [9], [10::nat]] [0, 0, 0, 1]
     = Inr \<lparr>probabilities = Some (3 / 4)\<rparr>"
proof -
  have h1: "[0, 0, 0, 1::rat] \<noteq> []" by simp
  have h2: "set [0, 0, 0, 1::rat] \<subseteq> {0, 1}" by simp
  have h3: "length [0, 0, 0, 1::rat] < 2 ^ 53" by simp
  have r: "round_double (3 / 4) = 3 / 4" by code_simp
  have "RandomClassifier_fit RandomClassifier_init [[7], [8], [9], [10::nat]] [0, 0, 0, 1]
     = Inr \<lparr>probabilities = Some (round_double (3 / 4))\<rparr>"
    using random_fit_probability[OF h1 h2, of RandomClassifier_init "[[7], [8], [9], [10::nat]]",
        THEN conjunct2, THEN mp, OF h3]
    by (simp add: RandomClassifier_init_def)
  with h1 h2 h3 r show ?thesis by simp
qed

text \<open>
  Claim C7, as the code has it. \<^verbatim>\<open>RandomClassifier.fit\<close> validates nothing. It raises
  ZeroDivisionError exactly when \<open>y\<close> holds neither a 0 nor a 1 (nothing catches it);
  on every other \<open>y\<close>, whatever its set of labels, it stores the float quotient of the
  count of 0 by the sum of the counts of 0 and 1, and the other labels are ignored.
\<close>

theorem random_fit_no_validation:
  fixes X :: "'x list" and self :: "'z RandomClassifier_scheme"
  shows "RandomClassifier_fit self X y =
     (if 0 \<notin> set y \<and> 1 \<notin> set y then Inl ZeroDivisionError
      else Inr (self\<lparr>probabilities :=
             Some (fl_div (float_of_nat (count_list y 0))
                     (fl_add (float_of_nat (count_list y 0)) (float_of_nat (count_list y 1))))\<rparr>))"
  by (simp add: RandomClassifier_fit_eq count_list_0_iff)

theorem random_fit_no_validation_witness:
  "RandomClassifier_fit RandomClassifier_init [[7], [8::nat]] [2, 3] = Inl ZeroDivisionError \<and>
   RandomClassifier_fit RandomClassifier_init [[7], [8], [9::nat]] [0, 1, 2]
     = Inr \<lparr>probabilities = Some (1 / 2)\<rparr>"
proof -
  have q: "fl_div (float_of_nat (Suc 0)) (fl_add (float_of_nat (Suc 0)) (float_of_nat (Suc 0)))
      = 1 / 2"
    by code_simp
  show ?thesis
    using random_fit_no_validation[of RandomClassifier_init "[[7], [8::nat]]" "[2, 3]"]
      random_fit_no_validation[of RandomClassifier_init "[[7], [8], [9::nat]]" "[0, 1, 2]"]
    by (simp add: RandomClassifier_init_def q)
qed

text \<open>
  Claim C7 as stated fails on \<open>y = [0, 0, 0]\<close>: the label set is \<open>{0}\<close>, not \<open>{0, 1}\<close>,
  and \<^verbatim>\<open>fit\<close> returns with \<^verbatim>\<open>probabilities_ = 1.0\<close>.
\<close>

theorem random_fit_degenerate_counterexample:
  "set [0, 0, 0::rat] \<noteq> {0, 1} \<and>
   RandomClassifier_fit RandomClassifier_init [[7], [8], [9::nat]] [0, 0, 0]
     = Inr \<lparr>probabilities = Some 1\<rparr>"
proof -
  have "RandomClassifier_fit RandomClassifier_init [[7], [8], [9::nat]] [0, 0, 0]
     = Inr \<lparr>probabilities = Some 1\<rparr>"
    by code_simp
  then show ?thesis by simp
qed

text \<open>
  Before any \<^verbatim>\<open>fit\<close>, \<^verbatim>\<open>predict\<close> of either classifier raises the not-initialized
  exception. After a \<^verbatim>\<open>fit\<close> that returned, \<^verbatim>\<open>predict\<close> of the random classifier never
  raises it, and \<^verbatim>\<open>predict\<close> of the majority-vote classifier raises it exactly when the
  label that \<^verbatim>\<open>fit\<close> stored is \<^verbatim>\<open>None\<close>.
\<close>

lemma predict_before_fit:
  "MajorityVoteClassifier_predict MajorityVoteClassifier_init X = Inl not_initialized"
  "RandomClassifier_predict np RandomClassifier_init X seed g = Inl not_initialized"
  by (simp_all add: MajorityVoteClassifier_predict_def MajorityVoteClassifier_init_def
      RandomClassifier_predict_def RandomClassifier_init_def)

lemma random_predict_after_fit:
  "RandomClassifier_fit self X y = Inr self' \<Longrightarrow>
   RandomClassifier_predict np self' X' seed g \<noteq> Inl not_initialized"
  by (auto simp: RandomClassifier_predict_def RandomClassifier_fit_def Let_def not_initialized_def
      split: option.splits if_splits prod.splits)

lemma majority_predict_after_fit:
  "MajorityVoteClassifier_fit self X y = Inr self' \<Longrightarrow>
   MajorityVoteClassifier_predict self' X' = Inl not_initialized \<longleftrightarrow> prediction self' = None"
  by (simp add: MajorityVoteClassifier_predict_def)


text \<open>
  Claim C9. For both classifiers, a \<^verbatim>\<open>fit\<close> that returns gives back the instance it was
  called on with only the fitted attribute assigned; the attribute's old value plays no
  part in the new one, so a second \<^verbatim>\<open>fit\<close> on the same data leaves the instance as the
  first did; and \<^verbatim>\<open>predict\<close> leaves the instance as it found it.
\<close>

theorem fit_refit_and_predict_state:
  fixes X X' :: "'x list" and np :: "'g np_random"
    and self self' :: "('l, 'z) MajorityVoteClassifier_scheme"
    and rself rself' :: "'w RandomClassifier_scheme"
  shows
  "(MajorityVoteClassifier_fit self X y = Inr self' \<longrightarrow>
      self' = self\<lparr>prediction := prediction self'\<rparr> \<and>
      MajorityVoteClassifier_fit self' X y = Inr self' \<and>
      (\<forall>old. MajorityVoteClassifier_fit (self\<lparr>prediction := old\<rparr>) X y = Inr self')) \<and>
   (RandomClassifier_fit rself X ry = Inr rself' \<longrightarrow>
      rself' = rself\<lparr>probabilities := probabilities rself'\<rparr> \<and>
      RandomClassifier_fit rself' X ry = Inr rself' \<and>
      (\<forall>old. RandomClassifier_fit (rself\<lparr>probabilities := old\<rparr>) X ry = Inr rself')) \<and>
   (predict MajorityVote_clf self X' = Inr (ys, self') \<longrightarrow> self' = self) \<and>
   (predict (Random_clf np) (rself, g) X' = Inr (rys, (rself', g')) \<longrightarrow> rself' = rself)"
  by (auto simp: MajorityVoteClassifier_fit_def RandomClassifier_fit_def Let_def
      MajorityVote_clf_def Random_clf_def
      split: list.splits option.splits if_splits prod.splits sum.splits)

theorem fit_refit_and_predict_state_witness:
  "MajorityVoteClassifier_fit \<lparr>prediction = Some (5::int)\<rparr> [[7], [8], [9::nat]]
       [Some 1, Some 1, Some 0] = Inr \<lparr>prediction = Some 1\<rparr> \<and>
   MajorityVoteClassifier_fit \<lparr>prediction = Some (1::int)\<rparr> [[7], [8], [9::nat]]
       [Some 1, Some 1, Some 0] = Inr \<lparr>prediction = Some 1\<rparr> \<and>
   RandomClassifier_fit \<lparr>probabilities = None\<rparr> [[7], [8], [9], [10::nat]] [1, 1, 1, 0]
     = Inr \<lparr>probabilities = Some (1 / 4)\<rparr> \<and>
   RandomClassifier_fit \<lparr>probabilities = Some (1 / 4)\<rparr> [[7], [8], [9], [10::nat]] [1, 1, 1, 0]
     = Inr \<lparr>probabilities = Some (1 / 4)\<rparr> \<and>
   predict MajorityVote_clf \<lparr>prediction = Some (5::int)\<rparr> [[1], [2::nat]]
     = Inr ([Some 5, Some 5], \<lparr>prediction = Some 5\<rparr>) \<and>
   predict (Random_clf counting_np) (\<lparr>probabilities = Some (1 / 4)\<rparr>, 0) [[1], [2::nat]]
     = Inr ([0, 1], (\<lparr>probabilities = Some (1 / 4)\<rparr>, 1236))"
proof -
  have f: "MajorityVoteClassifier_fit \<lparr>prediction = Some (5::int)\<rparr> [[7], [8], [9::nat]]
       [Some 1, Some 1, Some 0] = Inr \<lparr>prediction = Some 1\<rparr>"
    by code_simp
  have g: "RandomClassifier_fit \<lparr>probabilities = None\<rparr> [[7], [8], [9], [10::nat]] [1, 1, 1, 0]
     = Inr \<lparr>probabilities = Some (1 / 4)\<rparr>"
    by code_simp
  have p: "predict MajorityVote_clf \<lparr>prediction = Some (5::int)\<rparr> [[1], [2::nat]]
     = Inr ([Some 5, Some 5], \<lparr>prediction = Some 5\<rparr>)"
    by code_simp
  have q: "predict (Random_clf counting_np) (\<lparr>probabilities = Some (1 / 4)\<rparr>, 0) [[1], [2::nat]]
     = Inr ([0, 1], (\<lparr>probabilities = Some (1 / 4)\<rparr>, 1236))"
    by code_simp
  note T = fit_refit_and_predict_state[of "\<lparr>prediction = Some (5::int)\<rparr>" "[[7], [8], [9::nat]]"
      "[Some 1, Some 1, Some 0]" "\<lparr>prediction = Some 1\<rparr>" "\<lparr>probabilities = None\<rparr>"
      "[1, 1, 1, 0]" "\<lparr>probabilities = Some (1 / 4)\<rparr>" "[[1], [2::nat]]" "[Some 5, Some 5]"
      counting_np 0 "[0, 1]" 1236]
  note f2 = T[THEN conjunct1, THEN mp, OF f, THEN conjunct2, THEN conjunct1]
  have g1: "RandomClassifier_fit \<lparr>probabilities = None\<rparr> [[7], [8], [9::nat]] [1, 1, 1, 0]
     = Inr \<lparr>probabilities = Some (1 / 4)\<rparr>"
    by code_simp
  note g2 = T[THEN conjunct2, THEN conjunct1, THEN mp, OF g1, THEN conjunct2, THEN conjunct1]
  have g3: "RandomClassifier_fit \<lparr>probabilities = Some (1 / 4)\<rparr> [[7], [8], [9], [10::nat]]
      [1, 1, 1, 0] = Inr \<lparr>probabilities = Some (1 / 4)\<rparr>"
    using g2 by (simp add: RandomClassifier_fit_def)
  from f f2 g g3 p q show ?thesis by blast
qed

text \<open>
  Claim C5. Two calls of \<^verbatim>\<open>RandomClassifier.predict\<close> with the same seed, on instances
  with the same \<^verbatim>\<open>probabilities_\<close> and matrices with the same number of rows, return the
  same thing, whatever the state of the global generator before each call; and when the
  generator draws as numpy does, what is returned is one label per row, each 0 or 1.
\<close>

theorem random_predict_deterministic:
  fixes X1 X2 :: "'x list" and self1 self2 :: "'z RandomClassifier_scheme"
  assumes "np_valid np"
    and "probabilities self1 = Some p" and "probabilities self2 = Some p"
    and "length X1 = length X2"
  shows "RandomClassifier_predict np self1 X1 seed g1
           = RandomClassifier_predict np self2 X2 seed g2 \<and>
         (\<forall>ys g'. RandomClassifier_predict np self1 X1 seed g1 = Inr (ys, g') \<longrightarrow>
            length ys = length X1 \<and> set ys \<subseteq> {0, 1})"
proof -
  have eq: "RandomClassifier_predict np self1 X1 seed g1
           = RandomClassifier_predict np self2 X2 seed g2"
    using assms(2-4) by (simp add: RandomClassifier_predict_def cong: option.case_cong)
  have rng: "length ys = length X1 \<and> set ys \<subseteq> {0, 1}"
    if "RandomClassifier_predict np self1 X1 seed g1 = Inr (ys, g')" for ys g'
  proof -
    from that assms(2) obtain gs zs where
      c: "np_choice np gs 2 (length X1) [p, fl_sub 1 p] = Some (zs, g')"
      and ys: "ys = map of_nat zs"
      by (auto simp: RandomClassifier_predict_def split: option.splits)
    from assms(1) c have "length zs = length X1" and "\<forall>v \<in> set zs. v < 2"
      unfolding np_valid_def by blast+
    then have "\<forall>v \<in> set zs. v = 0 \<or> v = 1" by auto
    with \<open>length zs = length X1\<close> show ?thesis unfolding ys by auto
  qed
  from eq rng show ?thesis by blast
qed

lemma np_valid_counting_np: "np_valid counting_np"
  by (auto simp: np_valid_def counting_np_def split: if_splits)

theorem random_predict_deterministic_witness:
  "np_valid counting_np \<and>
   RandomClassifier_predict counting_np \<lparr>probabilities = Some (3 / 4)\<rparr> [[7], [8], [9::nat]]
      (Some 42) 0 = Inr ([0, 1, 0], 45) \<and>
   RandomClassifier_predict counting_np \<lparr>probabilities = Some (3 / 4)\<rparr> [[1], [2], [3::nat]]
      (Some 42) 99 = Inr ([0, 1, 0], 45) \<and>
   length [0, 1, 0::rat] = length [[7], [8], [9::nat]] \<and> set [0, 1, 0::rat] \<subseteq> {0, 1}"
proof -
  have a: "probabilities \<lparr>probabilities = Some (3 / 4)\<rparr> = Some (3 / 4)" by simp
  have l: "length [[7], [8], [9::nat]] = length [[1], [2], [3::nat]]" by simp
  have r: "RandomClassifier_predict counting_np \<lparr>probabilities = Some (3 / 4)\<rparr>
      [[7], [8], [9::nat]] (Some 42) 0 = Inr ([0, 1, 0], 45)"
    by code_simp
  from random_predict_deterministic[OF np_valid_counting_np a a l, of "Some 42" 0 99] r
  show ?thesis using np_valid_counting_np by auto
qed

section \<open>The evaluators: verified properties\<close>

text \<open>One trial that goes through, step by step, and the end of \<^verbatim>\<open>error\<close>.\<close>

lemma error_loop_step:
  assumes "split X y ts i = Some (X_train, X_test, y_train, y_test)"
    and "fit clf s X_train y_train = Inr s1"
    and "predict clf s1 X_train = Inr (y_train_pred, s2)"
    and "predict clf s2 X_test = Inr (y_test_pred, s3)"
    and "accuracy_score y_train y_train_pred = Inr a_train"
    and "accuracy_score y_test y_test_pred = Inr a_test"
  shows "error_loop split clf X y ts (i # js) (s, tr, te)
           = error_loop split clf X y ts js
               (s3, pf_add tr (pf_sub (Fin 1) a_train), pf_add te (pf_sub (Fin 1) a_test))"
  using assms by simp

lemma error_result:
  assumes "error_loop split clf X y ts [0..<nat n] (s, Fin 0, Fin 0) = Inr (s', tr, te)"
    and "pf_div_int tr n = Inr train_avg" and "pf_div_int te n = Inr test_avg"
  shows "error split clf s X y (Some n) (Some ts) = Inr ((train_avg, test_avg), s')"
  using assms by (simp add: error_def arg_or_def)

text \<open>
  \<^verbatim>\<open>error_partial\<close> is \<^verbatim>\<open>error\<close> on the split whose training partition is cut the way
  the source cuts it.
\<close>

lemma error_partial_loop_eq:
  "error_partial_loop split clf X y ts pa js acc
     = error_loop (truncate_train_source pa split) clf X y ts js acc"
proof (induction js arbitrary: acc)
  case Nil
  show ?case by simp
next
  case (Cons i js)
  obtain s tr te where acc: "acc = (s, tr, te)" by (cases acc) auto
  show ?case
  proof (cases "split X y ts i")
    case None
    then show ?thesis by (simp add: acc truncate_train_source_def)
  next
    case (Some parts)
    obtain X_train X_test y_train y_test where p: "parts = (X_train, X_test, y_train, y_test)"
      by (cases parts) auto
    show ?thesis
      by (simp add: acc Some p truncate_train_source_def Let_def Cons.IH
          cong: sum.case_cong prod.case_cong)
  qed
qed

lemma error_partial_eq:
  "error_partial split clf s X y ntrials_arg test_size_arg partial_amt_arg
     = error (truncate_train_source (partial_fraction (arg_or partial_amt_arg 10)) split)
         clf s X y ntrials_arg test_size_arg"
  by (simp add: error_partial_def error_def error_partial_loop_eq Let_def)

text \<open>
  The loop of \<^verbatim>\<open>error\<close> runs the trials of the specification in order and adds each
  contribution to the running totals.
\<close>

lemma error_loop_trials:
  "error_loop split clf X y ts js (s, tr, te) =
     (case trials_spec split clf X y ts s js of
        Inl e \<Rightarrow> Inl e
      | Inr (cs, s') \<Rightarrow>
          Inr (s', foldl pf_add tr (map fst cs), foldl pf_add te (map snd cs)))"
proof (induction js arbitrary: s tr te)
  case Nil
  show ?case by simp
next
  case (Cons i js)
  show ?case
  proof (cases "trial_spec split clf X y ts s i")
    case (Inl e)
    then show ?thesis
      by (auto simp: trial_spec_def split: option.splits sum.splits prod.splits)
  next
    case (Inr r)
    obtain c_train c_test s1 where r: "r = ((c_train, c_test), s1)" by (cases r) auto
    from Inr[unfolded r] have
      "error_loop split clf X y ts (i # js) (s, tr, te)
         = error_loop split clf X y ts js (s1, pf_add tr c_train, pf_add te c_test)"
      by (auto simp: trial_spec_def split: option.splits sum.splits prod.splits)
    then show ?thesis
      by (simp add: Inr r Cons.IH split: sum.splits prod.splits)
  qed
qed

lemma trials_spec_length:
  "trials_spec split clf X y ts s js = Inr (cs, s') \<Longrightarrow> length cs = length js"
  by (induction js arbitrary: s cs) (auto split: sum.splits prod.splits)

text \<open>
  Claim C1, as the code has it. For a trial count other than 0, \<^verbatim>\<open>error\<close> runs the
  trials \<open>i = 0, ..., ntrials - 1\<close> in this order on the same classifier (none when
  \<open>ntrials\<close> is negative): trial \<open>i\<close> splits \<open>(X, y)\<close> with \<open>random_state = i\<close> and
  fraction \<open>test_size\<close>, fits on the training partition, predicts on both partitions and
  contributes \<open>1 - accuracy\<close> for each; the first trial that fails ends the call with its
  exception. When all go through there are \<open>ntrials\<close> contributions, and the result is
  the pair of their float sums, from 0 and from the left, each divided by \<open>ntrials\<close>.
  The defaults are 100 trials and the double nearest to 0.2. For the trial count 0 the
  call raises ZeroDivisionError.
\<close>

theorem error_averages_trials:
  fixes split :: "('x, 'l) splitter" and clf :: "('s, 'x, 'l) classifier"
  shows
  "(arg_or ntrials_arg 100 \<noteq> 0 \<longrightarrow>
      error split clf s X y ntrials_arg test_size_arg
        = error_spec split clf s X y (arg_or ntrials_arg 100)
            (arg_or test_size_arg (round_double (2 / 10)))) \<and>
   (\<forall>cs s'. trials_spec split clf X y (arg_or test_size_arg (round_double (2 / 10))) s
               [0..<nat (arg_or ntrials_arg 100)] = Inr (cs, s') \<longrightarrow>
      length cs = nat (arg_or ntrials_arg 100)) \<and>
   (arg_or ntrials_arg 100 = 0 \<longrightarrow>
      error split clf s X y ntrials_arg test_size_arg = Inl ZeroDivisionError)"
proof -
  let ?n = "arg_or ntrials_arg 100"
  let ?ts = "arg_or test_size_arg (round_double (2 / 10))"
  have a: "error split clf s X y ntrials_arg test_size_arg = error_spec split clf s X y ?n ?ts"
    if "?n \<noteq> 0"
    using that
    by (simp add: error_def error_spec_def error_loop_trials pf_mean_def pf_sum_def
        pf_div_int_def Let_def split: sum.splits prod.splits pyfloat.splits)
  have b: "length cs = nat ?n"
    if "trials_spec split clf X y ?ts s [0..<nat ?n] = Inr (cs, s')" for cs s'
    using trials_spec_length[OF that] by simp
  have c: "error split clf s X y ntrials_arg test_size_arg = Inl ZeroDivisionError" if "?n = 0"
    using that by (simp add: error_def pf_div_int_def Let_def)
  from a b c show ?thesis by blast
qed

theorem error_averages_trials_witness:
  "arg_or (Some 2) 100 \<noteq> (0::int) \<and>
   error rotate_split MajorityVote_clf MajorityVoteClassifier_init
       [[7], [8], [9], [10::nat]] [Some 0, Some 0, Some 1, Some (0::int)] (Some 2) (Some (1 / 4))
     = Inr ((Fin (3002399751580331 / 9007199254740992), Fin 0), \<lparr>prediction = Some 0\<rparr>) \<and>
   trials_spec rotate_split MajorityVote_clf [[7], [8], [9], [10::nat]]
       [Some 0, Some 0, Some 1, Some (0::int)] (1 / 4) MajorityVoteClassifier_init [0..<nat 2]
     = Inr ([(Fin (3002399751580331 / 9007199254740992), Fin 0),
             (Fin (3002399751580331 / 9007199254740992), Fin 0)], \<lparr>prediction = Some 0\<rparr>) \<and>
   length [(Fin (3002399751580331 / 9007199254740992), Fin 0),
           (Fin (3002399751580331 / 9007199254740992), Fin 0)] = nat 2 \<and>
   arg_or (Some 0) 100 = (0::int) \<and>
   error rotate_split (Constant_clf (Some (1::int))) () [[7], [8::nat]] [Some 1, Some 0]
       (Some 0) None = Inl ZeroDivisionError"
proof -
  let ?X = "[[7], [8], [9], [10::nat]]"
  let ?y = "[Some 0, Some 0, Some 1, Some (0::int)]"
  let ?cs = "[(Fin (3002399751580331 / 9007199254740992), Fin 0),
              (Fin (3002399751580331 / 9007199254740992), Fin 0)]"
  have n2: "arg_or (Some 2) 100 \<noteq> (0::int)" by (simp add: arg_or_def)
  have n0: "arg_or (Some 0) 100 = (0::int)" by (simp add: arg_or_def)
  have t: "trials_spec rotate_split MajorityVote_clf ?X ?y (1 / 4) MajorityVoteClassifier_init
      [0..<nat 2] = Inr (?cs, \<lparr>prediction = Some 0\<rparr>)"
    by code_simp
  have m1: "pf_mean (map fst ?cs) 2 = Fin (3002399751580331 / 9007199254740992)"
    by code_simp
  have m2: "pf_mean (map snd ?cs) 2 = Fin 0"
    by code_simp
  have es: "error_spec rotate_split MajorityVote_clf MajorityVoteClassifier_init ?X ?y 2 (1 / 4)
      = Inr ((Fin (3002399751580331 / 9007199254740992), Fin 0), \<lparr>prediction = Some 0\<rparr>)"
    unfolding error_spec_def t using m1 m2 by simp
  have a: "arg_or (Some (1 / 4)) (round_double (2 / 10)) = (1 / 4 :: rat)"
    by (simp add: arg_or_def)
  have a2: "arg_or (Some 2) 100 = (2::int)" by (simp add: arg_or_def)
  note T = error_averages_trials[of "Some 2" rotate_split MajorityVote_clf
      MajorityVoteClassifier_init ?X ?y "Some (1 / 4)"]
  have e: "error rotate_split MajorityVote_clf MajorityVoteClassifier_init ?X ?y (Some 2)
      (Some (1 / 4)) = Inr ((Fin (3002399751580331 / 9007199254740992), Fin 0),
                            \<lparr>prediction = Some 0\<rparr>)"
    using T[THEN conjunct1, THEN mp, OF n2] unfolding a a2 es .
  have l: "length ?cs = nat 2"
    using T[THEN conjunct2, THEN conjunct1, THEN spec, THEN spec, THEN mp] t
    unfolding a a2 by blast
  have z: "error rotate_split (Constant_clf (Some (1::int))) () [[7], [8::nat]] [Some 1, Some 0]
      (Some 0) None = Inl ZeroDivisionError"
    using error_averages_trials[of "Some 0" rotate_split "Constant_clf (Some (1::int))" "()"
        "[[7], [8::nat]]" "[Some 1, Some 0]" None, THEN conjunct2, THEN conjunct2, THEN mp, OF n0] .
  from n2 e t l n0 z show ?thesis by blast
qed

text \<open>
  Claim C1 as stated fails for the trial count 0: no trial runs, the totals are still the
  integer 0, and \<^verbatim>\<open>0/0\<close> raises ZeroDivisionError where the claim has \<^verbatim>\<open>error\<close> return a
  pair.
\<close>

theorem error_zero_trials_counterexample:
  "error rotate_split MajorityVote_clf MajorityVoteClassifier_init
       [[7], [8], [9], [10::nat]] [Some 0, Some 0, Some 1, Some (0::int)] (Some 0) (Some (1 / 4))
     = Inl ZeroDivisionError"
  by (simp add: error_def arg_or_def pf_div_int_def)

end
